theory Spec2Isabelle
  imports Complex_Main
begin

text \<open>
  The data synchronisation and versioning subsystem of the AI Legal Secretary web client:
  the version service (\<^verbatim>\<open>incrementVersion\<close>), the remote sync client (\<^verbatim>\<open>parseResponse\<close>,
  \<^verbatim>\<open>fetchCloudData\<close>, \<^verbatim>\<open>saveCloudData\<close>), the import and export of backups
  (\<^verbatim>\<open>exportData\<close>, \<^verbatim>\<open>parseImportData\<close>) and the handlers of the App component that own the
  template collection and the revision. The TypeScript functions are embedded as HOL
  functions of the same names; what they leave to the JavaScript runtime (truthiness,
  property reads, numbers and their conversions from and to strings) is modelled first.
\<close>

section \<open>JavaScript values\<close>

text \<open>
  The synchronisation code receives its payloads as \<^verbatim>\<open>any\<close>: the body of an HTTP
  response, the result of \<^verbatim>\<open>JSON.parse\<close>. It inspects them dynamically (truthiness,
  \<^verbatim>\<open>Array.isArray\<close>, \<^verbatim>\<open>typeof\<close>, \<^verbatim>\<open>=== true\<close>), so the model keeps them dynamic: a value
  is one of the following. An object is the list of its own properties in insertion
  order; a number is kept by its exact value (only its being zero is ever inspected).
\<close>

datatype jsval =
    JUndefined
  | JNull
  | JBool bool
  | JNum rat
  | JStr string
  | JArr "jsval list"
  | JObj "(string \<times> jsval) list"

text \<open>\<^verbatim>\<open>ToBoolean\<close>: what \<^verbatim>\<open>if (v)\<close>, \<^verbatim>\<open>!v\<close> and \<^verbatim>\<open>v && ...\<close> test.\<close>

fun truthy :: "jsval \<Rightarrow> bool" where
  "truthy JUndefined = False"
| "truthy JNull = False"
| "truthy (JBool b) = b"
| "truthy (JNum q) = (q \<noteq> 0)"
| "truthy (JStr s) = (s \<noteq> [])"
| "truthy (JArr xs) = True"
| "truthy (JObj kvs) = True"

fun nullish :: "jsval \<Rightarrow> bool" where
  "nullish JUndefined = True"
| "nullish JNull = True"
| "nullish v = False"

text \<open>
  The property read \<^verbatim>\<open>v.k\<close> on a value other than \<^verbatim>\<open>null\<close> and \<^verbatim>\<open>undefined\<close>, for the
  names the program reads (\<^verbatim>\<open>record\<close>, \<^verbatim>\<open>compressed\<close>, \<^verbatim>\<open>data\<close>, \<^verbatim>\<open>templates\<close>,
  \<^verbatim>\<open>version\<close>, \<^verbatim>\<open>id\<close>): an object gives its own property, anything else gives
  \<^verbatim>\<open>undefined\<close> (no primitive wrapper and no array has a property of these names).
\<close>

fun own_prop :: "jsval \<Rightarrow> string \<Rightarrow> jsval" where
  "own_prop (JObj kvs) k = (case map_of kvs k of None \<Rightarrow> JUndefined | Some v \<Rightarrow> v)"
| "own_prop v k = JUndefined"

datatype js_error = TypeError

text \<open>The unguarded read \<^verbatim>\<open>v.k\<close>: it throws a \<^verbatim>\<open>TypeError\<close> on \<^verbatim>\<open>null\<close> and \<^verbatim>\<open>undefined\<close>.\<close>

definition get_prop :: "jsval \<Rightarrow> string \<Rightarrow> js_error + jsval" where
  "get_prop v k = (if nullish v then Inl TypeError else Inr (own_prop v k))"

fun isArray :: "jsval \<Rightarrow> bool" where
  "isArray (JArr xs) = True"
| "isArray v = False"

fun elements :: "jsval \<Rightarrow> jsval list" where
  "elements (JArr xs) = xs"
| "elements v = []"

text \<open>\<^verbatim>\<open>typeof v === 'string'\<close>, and the characters of a string value.\<close>

fun isString :: "jsval \<Rightarrow> bool" where
  "isString (JStr s) = True"
| "isString v = False"

fun string_of :: "jsval \<Rightarrow> string" where
  "string_of (JStr s) = s"
| "string_of v = []"

section \<open>JavaScript numbers\<close>

text \<open>
  \<^verbatim>\<open>incrementVersion\<close> coerces the parts of a version string with \<^verbatim>\<open>Number\<close>, adds one
  with \<^verbatim>\<open>++\<close>, compares with \<^verbatim>\<open>> 9\<close> and prints the results in a template literal. A
  JavaScript number is an IEEE 754 double: \<open>NaN\<close>, an infinity, or a finite value, kept
  here as the rational it denotes (the two zeros are not told apart: the program never
  divides, and both print as \<^verbatim>\<open>0\<close>).
\<close>

datatype jsnum = NaN | PosInf | NegInf | Fin rat

text \<open>
  Rounding a rational to the nearest double, ties to the even significand: 53 significant
  bits, the exponent of the unit in the last place no smaller than \<open>- 1074\<close>, and infinity
  from \<open>2^1024\<close> on. \<open>digit_count b n\<close> is the number of digits of \<open>n\<close> in base \<open>b\<close>;
  \<open>floor_log b a\<close> is the integer \<open>k\<close> with \<open>b^k \<le> a < b^(k + 1)\<close>, for a positive \<open>a\<close>.
\<close>

definition round_half_even :: "rat \<Rightarrow> int" where
  "round_half_even q =
     (let f = \<lfloor>q\<rfloor>; r = q - of_int f
      in if r < 1/2 then f else if 1/2 < r then f + 1 else if even f then f else f + 1)"

function digit_count :: "int \<Rightarrow> int \<Rightarrow> nat" where
  "digit_count b n = (if 2 \<le> b \<and> 0 < n then Suc (digit_count b (n div b)) else 0)"
  by pat_completeness auto
termination
  by (relation "measure (\<lambda>(b, n). nat n)") (auto simp: pos_imp_zdiv_pos_iff intro!: int_div_less_self zdiv_mono2)

declare digit_count.simps [simp del]

definition floor_log :: "int \<Rightarrow> rat \<Rightarrow> int" where
  "floor_log b a =
     (let (p, d) = quotient_of a;
          k = int (digit_count b p) - int (digit_count b d)
      in if power_int (of_int b) k \<le> a then k else k - 1)"

definition fl :: "rat \<Rightarrow> jsnum" where
  "fl q =
     (if q = 0 then Fin 0
      else let a = \<bar>q\<bar>;
               e = max (floor_log 2 a) (- 1022);
               u = power_int 2 (e - 52);
               r = of_int (round_half_even (a / u)) * u
           in if 2 ^ 1024 \<le> r then (if q < 0 then NegInf else PosInf)
              else Fin (if q < 0 then - r else r))"

text \<open>\<^verbatim>\<open>x++\<close> (the new value), \<^verbatim>\<open>x > b\<close> and the global \<^verbatim>\<open>isNaN\<close>.\<close>

fun js_inc :: "jsnum \<Rightarrow> jsnum" where
  "js_inc (Fin q) = fl (q + 1)"
| "js_inc x = x"

fun js_gt :: "jsnum \<Rightarrow> rat \<Rightarrow> bool" where
  "js_gt (Fin q) b = (b < q)"
| "js_gt PosInf b = True"
| "js_gt x b = False"

fun isNaN :: "jsnum \<Rightarrow> bool" where
  "isNaN NaN = True"
| "isNaN x = False"

text \<open>
  \<^verbatim>\<open>Number(str)\<close> on a string (\<^verbatim>\<open>StringToNumber\<close>): white space is trimmed; the empty
  string is \<open>0\<close>; otherwise the string is a binary, octal or hexadecimal integer literal
  without sign, or an optionally signed \<^verbatim>\<open>Infinity\<close> or decimal literal with optional
  fraction and exponent; anything else is \<open>NaN\<close>. Characters are code units below 256.
\<close>

definition is_ws :: "char \<Rightarrow> bool" where
  "is_ws c = (c \<in> set [CHR 0x09, CHR 0x0A, CHR 0x0B, CHR 0x0C, CHR 0x0D, CHR 0x20, CHR 0xA0])"

definition trim :: "string \<Rightarrow> string" where
  "trim s = rev (dropWhile is_ws (rev (dropWhile is_ws s)))"

definition hex_val :: "char \<Rightarrow> int option" where
  "hex_val c =
     (let n = (of_char c :: int)
      in if 48 \<le> n \<and> n \<le> 57 then Some (n - 48)
         else if 97 \<le> n \<and> n \<le> 102 then Some (n - 87)
         else if 65 \<le> n \<and> n \<le> 70 then Some (n - 55)
         else None)"

definition is_digit_of :: "int \<Rightarrow> char \<Rightarrow> bool" where
  "is_digit_of base c = (case hex_val c of None \<Rightarrow> False | Some v \<Rightarrow> v < base)"

definition digit_val :: "char \<Rightarrow> int" where
  "digit_val c = (case hex_val c of None \<Rightarrow> 0 | Some v \<Rightarrow> v)"

definition digits_value :: "int \<Rightarrow> string \<Rightarrow> int" where
  "digits_value base s = foldl (\<lambda>a c. base * a + digit_val c) 0 s"

definition radix_literal :: "int \<Rightarrow> string \<Rightarrow> jsnum" where
  "radix_literal base ds =
     (if ds \<noteq> [] \<and> list_all (is_digit_of base) ds
      then fl (of_int (digits_value base ds))
      else NaN)"

definition signed_integer :: "string \<Rightarrow> int option" where
  "signed_integer s =
     (case s of
        [] \<Rightarrow> None
      | c # t \<Rightarrow>
          if c = CHR ''+'' \<or> c = CHR ''-'' then
            (if t \<noteq> [] \<and> list_all (is_digit_of 10) t
             then Some ((if c = CHR ''-'' then - 1 else 1) * digits_value 10 t) else None)
          else (if list_all (is_digit_of 10) s then Some (digits_value 10 s) else None))"

definition exponent_part :: "string \<Rightarrow> int option" where
  "exponent_part s =
     (case s of
        [] \<Rightarrow> Some 0
      | c # t \<Rightarrow> if c = CHR ''e'' \<or> c = CHR ''E'' then signed_integer t else None)"

datatype literal = Invalid | Infinite | Finite rat

definition unsigned_decimal :: "string \<Rightarrow> literal" where
  "unsigned_decimal s =
     (if s = ''Infinity'' then Infinite
      else let ip = takeWhile (is_digit_of 10) s; r1 = dropWhile (is_digit_of 10) s;
               fp = (case r1 of [] \<Rightarrow> [] | c # t \<Rightarrow>
                       if c = CHR ''.'' then takeWhile (is_digit_of 10) t else []);
               r2 = (case r1 of [] \<Rightarrow> [] | c # t \<Rightarrow>
                       if c = CHR ''.'' then dropWhile (is_digit_of 10) t else r1)
           in if ip = [] \<and> fp = [] then Invalid
              else (case exponent_part r2 of
                      None \<Rightarrow> Invalid
                    | Some ex \<Rightarrow>
                        Finite (of_int (digits_value 10 (ip @ fp))
                                  * power_int 10 (ex - int (length fp)))))"

definition decimal_literal :: "string \<Rightarrow> jsnum" where
  "decimal_literal s =
     (case s of
        [] \<Rightarrow> NaN
      | c # t \<Rightarrow>
          if c = CHR ''-'' then
            (case unsigned_decimal t of Invalid \<Rightarrow> NaN | Infinite \<Rightarrow> NegInf
             | Finite q \<Rightarrow> fl (- q))
          else
            (case unsigned_decimal (if c = CHR ''+'' then t else s) of
               Invalid \<Rightarrow> NaN | Infinite \<Rightarrow> PosInf | Finite q \<Rightarrow> fl q))"

definition StringToNumber :: "string \<Rightarrow> jsnum" where
  "StringToNumber str =
     (let s = trim str
      in if s = [] then Fin 0
         else (case s of
                 c # d # ds \<Rightarrow>
                   if c = CHR ''0'' \<and> (d = CHR ''x'' \<or> d = CHR ''X'') then radix_literal 16 ds
                   else if c = CHR ''0'' \<and> (d = CHR ''o'' \<or> d = CHR ''O'') then radix_literal 8 ds
                   else if c = CHR ''0'' \<and> (d = CHR ''b'' \<or> d = CHR ''B'') then radix_literal 2 ds
                   else decimal_literal s
               | _ \<Rightarrow> decimal_literal s))"

text \<open>The decimal digits of a non-negative integer.\<close>

definition digit_char :: "int \<Rightarrow> char" where
  "digit_char d = char_of (48 + d)"

function decimal :: "int \<Rightarrow> string" where
  "decimal n = (if n < 10 then [digit_char n] else decimal (n div 10) @ [digit_char (n mod 10)])"
  by pat_completeness auto
termination
  by (relation "measure nat") auto

declare decimal.simps [simp del]

text \<open>\<open>dec_exp x\<close> is the integer \<open>n\<close> with \<open>10^(n - 1) \<le> x < 10^n\<close>, for a positive \<open>x\<close>.\<close>

definition dec_exp :: "rat \<Rightarrow> int" where
  "dec_exp x = floor_log 10 x + 1"

text \<open>
  \<^verbatim>\<open>Number::toString\<close>: the digits are those of the integer \<open>s\<close> with the fewest digits
  \<open>k\<close> such that \<open>s * 10^(n - k)\<close> rounds to the number; between two such \<open>s\<close> the one
  nearer to the number is taken. For \<open>k\<close> digits the only candidates are the two multiples
  of \<open>10^(n - k)\<close> around the number; a candidate \<open>(s, n)\<close> stands for \<open>s * 10^(n - k)\<close>.
  Seventeen digits identify every double.
\<close>

definition cval :: "nat \<Rightarrow> int \<times> int \<Rightarrow> rat" where
  "cval k c = of_int (fst c) * power_int 10 (snd c - int k)"

definition candidates :: "rat \<Rightarrow> nat \<Rightarrow> (int \<times> int) list" where
  "candidates x k =
     (let n = dec_exp x;
          lo = \<lfloor>x / power_int 10 (n - int k)\<rfloor>
      in [(lo, n), if lo + 1 = 10 ^ k then (10 ^ (k - 1), n + 1) else (lo + 1, n)])"

definition closest :: "rat \<Rightarrow> nat \<Rightarrow> int \<times> int \<Rightarrow> int \<times> int \<Rightarrow> int \<times> int" where
  "closest x k c1 c2 =
     (let d1 = \<bar>cval k c1 - x\<bar>; d2 = \<bar>cval k c2 - x\<bar>
      in if d1 < d2 then c1 else if d2 < d1 then c2 else if even (fst c1) then c1 else c2)"

function shortest :: "rat \<Rightarrow> nat \<Rightarrow> (int \<times> int) \<times> nat" where
  "shortest x k =
     (case filter (\<lambda>c. fl (cval k c) = Fin x) (candidates x k) of
        [] \<Rightarrow> if 17 \<le> k then (hd (candidates x k), k) else shortest x (Suc k)
      | [c] \<Rightarrow> (c, k)
      | c1 # c2 # cs \<Rightarrow> (closest x k c1 c2, k))"
  by pat_completeness auto
termination
  by (relation "measure (\<lambda>(x, k). 17 - k)") auto

declare shortest.simps [simp del]

definition positive_to_string :: "rat \<Rightarrow> string" where
  "positive_to_string x =
     (let ((s, n), k) = shortest x 1; ds = decimal s
      in if int k \<le> n \<and> n \<le> 21 then ds @ replicate (nat (n - int k)) (CHR ''0'')
         else if 0 < n \<and> n \<le> 21 then take (nat n) ds @ ''.'' @ drop (nat n) ds
         else if - 6 < n \<and> n \<le> 0 then ''0.'' @ replicate (nat (- n)) (CHR ''0'') @ ds
         else let ex = [if n - 1 < 0 then CHR ''-'' else CHR ''+''] @ decimal \<bar>n - 1\<bar>
              in if k = 1 then ds @ ''e'' @ ex
                 else take 1 ds @ ''.'' @ drop 1 ds @ ''e'' @ ex)"

fun NumberToString :: "jsnum \<Rightarrow> string" where
  "NumberToString NaN = ''NaN''"
| "NumberToString PosInf = ''Infinity''"
| "NumberToString NegInf = ''-Infinity''"
| "NumberToString (Fin q) =
     (if q = 0 then ''0'' else if q < 0 then ''-'' @ positive_to_string (- q)
      else positive_to_string q)"

text \<open>\<^verbatim>\<open>currentVersion.split('.')\<close>: the pieces between the separators, at least one.\<close>

fun split_on :: "char \<Rightarrow> string \<Rightarrow> string list" where
  "split_on sep [] = [[]]"
| "split_on sep (c # cs) =
     (if c = sep then [] # split_on sep cs
      else (case split_on sep cs of [] \<Rightarrow> [[c]] | p # ps \<Rightarrow> (c # p) # ps))"

section \<open>Versioning (the version service)\<close>

text \<open>The browser's \<^verbatim>\<open>localStorage\<close>: a map from keys to strings.\<close>

type_synonym storage = "string \<rightharpoonup> string"

definition VERSION_KEY :: string where
  "VERSION_KEY = ''legal_app_version''"

definition DEFAULT_VERSION :: string where
  "DEFAULT_VERSION = ''1.0.0''"

text \<open>
  \<^verbatim>\<open>localStorage.getItem(VERSION_KEY) || DEFAULT_VERSION\<close>; \<open>hasWindow\<close> is
  \<^verbatim>\<open>typeof window !== 'undefined'\<close>.
\<close>

definition getStoredVersion :: "bool \<Rightarrow> storage \<Rightarrow> string" where
  "getStoredVersion hasWindow ls =
     (if \<not> hasWindow then DEFAULT_VERSION
      else (case ls VERSION_KEY of
              None \<Rightarrow> DEFAULT_VERSION
            | Some v \<Rightarrow> if v = [] then DEFAULT_VERSION else v))"

text \<open>Lines 73 to 81 of \<^verbatim>\<open>incrementVersion\<close>: the arithmetic on \<^verbatim>\<open>[major, minor, patch]\<close>.\<close>

definition rollover :: "jsnum \<Rightarrow> jsnum \<Rightarrow> jsnum \<Rightarrow> jsnum \<times> jsnum \<times> jsnum" where
  "rollover major minor patch =
     (let patch1 = js_inc patch;
          (patch2, minor1) = (if js_gt patch1 9 then (Fin 0, js_inc minor) else (patch1, minor));
          (minor2, major1) = (if js_gt minor1 9 then (Fin 0, js_inc major) else (minor1, major))
      in (major1, minor2, patch2))"

text \<open>The template literal \<^verbatim>\<open>`${major}.${minor}.${patch}`\<close>.\<close>

definition version_string :: "jsnum \<times> jsnum \<times> jsnum \<Rightarrow> string" where
  "version_string v =
     (case v of (major, minor, patch) \<Rightarrow>
        NumberToString major @ ''.'' @ NumberToString minor @ ''.'' @ NumberToString patch)"

text \<open>
  \<^verbatim>\<open>incrementVersion\<close> returns the new version and writes it to \<^verbatim>\<open>localStorage\<close>: the
  model returns the string and the storage after the call (a write is taken to succeed).
  The destructuring \<^verbatim>\<open>let [major, minor, patch] = parts\<close> runs only past the guard, on a
  list of three; the last case is never reached.
\<close>

definition incrementVersion :: "string \<Rightarrow> storage \<Rightarrow> string \<times> storage" where
  "incrementVersion currentVersion ls =
     (let parts = map StringToNumber (split_on (CHR ''.'') currentVersion)
      in if length parts \<noteq> 3 \<or> list_ex isNaN parts
         then (''1.0.1'', ls(VERSION_KEY \<mapsto> ''1.0.1''))
         else (case parts of
                 [major, minor, patch] \<Rightarrow>
                   (let newVersion = version_string (rollover major minor patch)
                    in (newVersion, ls(VERSION_KEY \<mapsto> newVersion)))
               | other \<Rightarrow> (''1.0.1'', ls(VERSION_KEY \<mapsto> ''1.0.1''))))"

section \<open>The runtime and the compression library\<close>

text \<open>
  \<^verbatim>\<open>JSON.stringify\<close> and \<^verbatim>\<open>JSON.parse\<close> belong to the JavaScript runtime, and
  \<^verbatim>\<open>LZString\<close> is a library loaded by the page (\<^verbatim>\<open>declare const LZString\<close> in the sync
  service): none of them has code in the repository. The functions that call them take
  them as a parameter. \<^verbatim>\<open>JSON.stringify(v, null, n)\<close> is \<open>JSON_stringify rt v n\<close>, with
  \<open>n = 0\<close> for the call without indentation; \<open>JSON_parse\<close> gives \<open>None\<close> where
  \<^verbatim>\<open>JSON.parse\<close> throws; \<open>decompressFromUTF16\<close> gives \<open>None\<close> where the library returns
  \<^verbatim>\<open>null\<close>.
\<close>

record runtime =
  JSON_stringify :: "jsval \<Rightarrow> nat \<Rightarrow> string"
  JSON_parse :: "string \<Rightarrow> jsval option"
  compressToUTF16 :: "string \<Rightarrow> string"
  decompressFromUTF16 :: "string \<Rightarrow> string option"

section \<open>Remote sync client (the sync service)\<close>

record CloudConfig =
  endpoint :: string
  apiKey :: string

datatype app_error =
    NetworkFailure
  | SyncError nat string
  | SaveError nat string
  | BodyNotJson
  | DecompressionError

text \<open>
  The compression codec, as the two services use it. \<open>compress\<close> is lines 97 and 100 of
  \<^verbatim>\<open>saveCloudData\<close>; \<open>decompress\<close> is the \<^verbatim>\<open>try\<close> block of \<^verbatim>\<open>parseResponse\<close>: an
  empty or \<^verbatim>\<open>null\<close> decompression result and a \<^verbatim>\<open>JSON.parse\<close> failure are all rethrown
  as the one decompression error.
\<close>

definition compress :: "runtime \<Rightarrow> jsval \<Rightarrow> string" where
  "compress rt payload = compressToUTF16 rt (JSON_stringify rt payload 0)"

definition decompress :: "runtime \<Rightarrow> string \<Rightarrow> app_error + jsval" where
  "decompress rt txt =
     (case decompressFromUTF16 rt txt of
        None \<Rightarrow> Inl DecompressionError
      | Some decompressedString \<Rightarrow>
          if decompressedString = [] then Inl DecompressionError
          else (case JSON_parse rt decompressedString of
                  None \<Rightarrow> Inl DecompressionError
                | Some parsedData \<Rightarrow> Inr parsedData))"

text \<open>Step 1 of \<^verbatim>\<open>parseResponse\<close>: \<^verbatim>\<open>if (rawResponse && rawResponse.record) payload = rawResponse.record\<close>.\<close>

definition unwrap_record :: "jsval \<Rightarrow> jsval" where
  "unwrap_record rawResponse =
     (if truthy rawResponse \<and> truthy (own_prop rawResponse ''record'')
      then own_prop rawResponse ''record'' else rawResponse)"

definition parseResponse :: "runtime \<Rightarrow> jsval \<Rightarrow> app_error + jsval" where
  "parseResponse rt rawResponse =
     (let payload = unwrap_record rawResponse in
      if truthy payload \<and> own_prop payload ''compressed'' = JBool True
         \<and> isString (own_prop payload ''data'')
      then decompress rt (string_of (own_prop payload ''data''))
      else if truthy payload \<and> isArray (own_prop payload ''templates'')
      then Inr payload
      else Inr payload)"

record http_request =
  req_verb :: string
  req_url :: string
  req_headers :: "(string \<times> string) list"
  req_body :: "string option"

record http_response =
  res_ok :: bool
  res_status :: nat
  res_statusText :: string
  res_json :: "jsval option"

text \<open>
  The remote store: what \<^verbatim>\<open>fetch\<close> resolves to for a request, \<open>None\<close> when the promise
  rejects (a network failure). \<open>res_json\<close> is \<open>None\<close> when the body is not JSON and
  \<^verbatim>\<open>res.json()\<close> rejects.
\<close>

type_synonym network = "http_request \<Rightarrow> http_response option"

definition auth_headers :: "CloudConfig \<Rightarrow> (string \<times> string) list" where
  "auth_headers config =
     (''Content-Type'', ''application/json'') #
     (if apiKey config \<noteq> []
      then [(''X-Access-Key'', apiKey config), (''X-Master-Key'', apiKey config),
            (''Authorization'', ''Bearer '' @ apiKey config)]
      else [])"

definition fetchCloudData :: "runtime \<Rightarrow> network \<Rightarrow> CloudConfig \<Rightarrow> app_error + jsval" where
  "fetchCloudData rt net config =
     (case net \<lparr>req_verb = ''GET'', req_url = endpoint config,
                req_headers = auth_headers config, req_body = None\<rparr> of
        None \<Rightarrow> Inl NetworkFailure
      | Some res \<Rightarrow>
          if \<not> res_ok res then Inl (SyncError (res_status res) (res_statusText res))
          else (case res_json res of
                  None \<Rightarrow> Inl BodyNotJson
                | Some json \<Rightarrow> parseResponse rt json))"

definition saveCloudData ::
  "runtime \<Rightarrow> network \<Rightarrow> string \<Rightarrow> CloudConfig \<Rightarrow> jsval \<Rightarrow> app_error + unit" where
  "saveCloudData rt net nowISO config cloudData =
     (let compressedString = compress rt cloudData;
          payload = JObj [(''compressed'', JBool True), (''data'', JStr compressedString),
                          (''updatedAt'', JStr nowISO)]
      in case net \<lparr>req_verb = ''PUT'', req_url = endpoint config,
                    req_headers = auth_headers config,
                    req_body = Some (JSON_stringify rt payload 0)\<rparr> of
           None \<Rightarrow> Inl NetworkFailure
         | Some res \<Rightarrow>
             if \<not> res_ok res then Inl (SaveError (res_status res) (res_statusText res))
             else Inr ())"

section \<open>Import and export (the persistence service)\<close>

datatype import_error =
    InvalidFile      \<comment> \<open>the message "invalid or corrupted file"\<close>
  | JsonReadError    \<comment> \<open>the message "error reading the JSON file", from the \<^verbatim>\<open>catch\<close>\<close>
  | FileReadError    \<comment> \<open>the message "error reading the file", from \<^verbatim>\<open>reader.onerror\<close>\<close>

text \<open>
  \<^verbatim>\<open>exportData\<close> builds the backup document and hands it to the browser as a download:
  the model returns the file's name and content. \<open>now\<close> is \<^verbatim>\<open>Date.now()\<close>.
\<close>

definition export_document :: "jsval list \<Rightarrow> string \<Rightarrow> int \<Rightarrow> jsval" where
  "export_document tpls ver now =
     JObj [(''version'', JStr ver), (''templates'', JArr tpls), (''exportedAt'', JNum (of_int now))]"

definition exportData :: "runtime \<Rightarrow> int \<Rightarrow> jsval list \<Rightarrow> string \<Rightarrow> string \<times> string" where
  "exportData rt now tpls ver =
     (''legal_secretary_backup_Vr_'' @ ver @ ''.json'',
      JSON_stringify rt (export_document tpls ver now) 2)"

text \<open>
  The body of the \<^verbatim>\<open>try\<close> block of \<^verbatim>\<open>parseImportData\<close> after \<^verbatim>\<open>JSON.parse\<close>: the
  validation of the parsed document. The read \<^verbatim>\<open>data.templates\<close> is unguarded, so on
  \<^verbatim>\<open>null\<close> it throws inside the \<^verbatim>\<open>try\<close> and the \<^verbatim>\<open>catch\<close> rejects with the JSON read
  error. The result is the pair \<^verbatim>\<open>{templates, version}\<close>.
\<close>

definition validate_import :: "jsval \<Rightarrow> import_error + (jsval \<times> jsval)" where
  "validate_import imported =
     (case get_prop imported ''templates'' of
        Inl e \<Rightarrow> Inl JsonReadError
      | Inr t \<Rightarrow>
          if \<not> truthy t \<or> \<not> isArray t \<or> \<not> truthy (own_prop imported ''version'')
          then Inl InvalidFile
          else Inr (t, own_prop imported ''version''))"

text \<open>A file is \<open>None\<close> when the reader fails, else its text.\<close>

definition parseImportData :: "runtime \<Rightarrow> string option \<Rightarrow> import_error + (jsval \<times> jsval)" where
  "parseImportData rt file =
     (case file of
        None \<Rightarrow> Inl FileReadError
      | Some txt \<Rightarrow>
          (case JSON_parse rt txt of
             None \<Rightarrow> Inl JsonReadError
           | Some imported \<Rightarrow> validate_import imported))"

section \<open>Application state coordinator (the App component)\<close>

text \<open>
  The component's state, with the browser's \<^verbatim>\<open>localStorage\<close> and the pending timer of
  the debounced save. \<open>templates\<close> holds the elements of the array; \<open>version\<close> is a
  value, since the fetch and import paths store whatever truthy value the document
  carries.
\<close>

record app_state =
  templates :: "jsval list"
  version :: jsval
  cloudConfig :: CloudConfig
  isSyncing :: bool
  lastSyncTime :: string
  localStorage :: storage
  saveTimer :: bool

text \<open>
  One run of \<^verbatim>\<open>handleCloudSync\<close>, from the call to the end of its \<^verbatim>\<open>finally\<close> block.
  \<open>nowMs\<close>, \<open>nowISO\<close> and \<open>nowLocal\<close> are \<^verbatim>\<open>Date.now()\<close>, \<^verbatim>\<open>new Date().toISOString()\<close>
  and \<^verbatim>\<open>new Date().toLocaleTimeString()\<close>. Every error of the \<^verbatim>\<open>try\<close> block is caught
  and logged; the \<^verbatim>\<open>finally\<close> block clears the flag.
\<close>

definition apply_fetched :: "string \<Rightarrow> jsval \<Rightarrow> app_state \<Rightarrow> app_state" where
  "apply_fetched nowLocal fetched st =
     (if truthy fetched \<and> isArray (own_prop fetched ''templates'')
      then st\<lparr>templates := elements (own_prop fetched ''templates''),
              version := (if truthy (own_prop fetched ''version'')
                          then own_prop fetched ''version'' else version st),
              lastSyncTime := nowLocal\<rparr>
      else st)"

definition handleCloudSync ::
  "runtime \<Rightarrow> network \<Rightarrow> int \<Rightarrow> string \<Rightarrow> string \<Rightarrow> bool \<Rightarrow> app_state \<Rightarrow> app_state" where
  "handleCloudSync rt net nowMs nowISO nowLocal fetchOnly st =
     (if endpoint (cloudConfig st) = [] then st
      else
        (let st1 = st\<lparr>isSyncing := True\<rparr>;
             st2 =
               (if fetchOnly then
                  (case fetchCloudData rt net (cloudConfig st) of
                     Inl err \<Rightarrow> st1
                   | Inr fetched \<Rightarrow> apply_fetched nowLocal fetched st1)
                else
                  (case saveCloudData rt net nowISO (cloudConfig st)
                          (JObj [(''version'', version st), (''templates'', JArr (templates st)),
                                 (''lastUpdated'', JNum (of_int nowMs))]) of
                     Inl err \<Rightarrow> st1
                   | Inr u \<Rightarrow> st1\<lparr>lastSyncTime := nowLocal\<rparr>))
         in st2\<lparr>isSyncing := False\<rparr>))"


text \<open>
  The two mutations. \<^verbatim>\<open>incrementVersion(version)\<close> is called on the state's value:
  \<^verbatim>\<open>split\<close> exists on strings only, so any other value throws a \<^verbatim>\<open>TypeError\<close>. A handler
  returns the state after its updates are applied, or the error thrown by the handler or
  by its state updater.
\<close>

definition bump_version :: "app_state \<Rightarrow> js_error + app_state" where
  "bump_version st =
     (case version st of
        JStr v \<Rightarrow>
          (case incrementVersion v (localStorage st) of
             (newVer, ls) \<Rightarrow> Inr (st\<lparr>version := JStr newVer, localStorage := ls\<rparr>))
      | other \<Rightarrow> Inl TypeError)"

definition handleAddTemplate :: "jsval \<Rightarrow> app_state \<Rightarrow> js_error + app_state" where
  "handleAddTemplate newTemplate st =
     (case bump_version st of
        Inl err \<Rightarrow> Inl err
      | Inr st1 \<Rightarrow> Inr (st1\<lparr>templates := newTemplate # templates st\<rparr>))"



text \<open>
  \<^verbatim>\<open>handleFileChange\<close>: \<open>chosen\<close> is \<open>None\<close> when no file was picked; \<open>confirmed\<close> is the
  user's answer to the confirmation dialog. The result is the state and the alert shown,
  if any.
\<close>

datatype alert = RestoreSucceeded | RestoreFailed import_error

definition handleFileChange ::
  "runtime \<Rightarrow> string option option \<Rightarrow> bool \<Rightarrow> app_state \<Rightarrow> app_state \<times> alert option" where
  "handleFileChange rt chosen confirmed st =
     (case chosen of
        None \<Rightarrow> (st, None)
      | Some file \<Rightarrow>
          (case parseImportData rt file of
             Inl err \<Rightarrow> (st, Some (RestoreFailed err))
           | Inr (importedTemplates, importedVersion) \<Rightarrow>
               if confirmed
               then (st\<lparr>templates := elements importedTemplates, version := importedVersion\<rparr>,
                     Some RestoreSucceeded)
               else (st, None)))"

section \<open>The specification's terms\<close>



text \<open>
  "Parses as exactly three integer components": the string splits at the dots into three
  parts, and \<^verbatim>\<open>Number\<close> gives an integer for each.
\<close>

definition integer_component :: "jsnum \<Rightarrow> bool" where
  "integer_component x = (case x of Fin q \<Rightarrow> of_int \<lfloor>q\<rfloor> = q | other \<Rightarrow> False)"

definition three_integer_components :: "string \<Rightarrow> bool" where
  "three_integer_components v =
     (case map StringToNumber (split_on (CHR ''.'') v) of
        [a, b, c] \<Rightarrow> integer_component a \<and> integer_component b \<and> integer_component c
      | other \<Rightarrow> False)"

text \<open>
  Modelled from the spec: the code of \<^verbatim>\<open>LZString\<close> and of the JSON built-ins is not part
  of the repository. The specification calls the compression "a reversible compression
  transform" whose decompression is its "inverse", on "JSON-serializable" payloads. For a
  payload \<open>p\<close> this says: serialising \<open>p\<close> gives a non-empty text that parses back to \<open>p\<close>,
  and decompressing the compressed text gives the text back.
\<close>

definition reversible_at :: "runtime \<Rightarrow> jsval \<Rightarrow> bool" where
  "reversible_at rt p \<longleftrightarrow>
     JSON_stringify rt p 0 \<noteq> [] \<and>
     JSON_parse rt (JSON_stringify rt p 0) = Some p \<and>
     decompressFromUTF16 rt (compressToUTF16 rt (JSON_stringify rt p 0)) =
       Some (JSON_stringify rt p 0)"


section \<open>Sample data\<close>

text \<open>
  To apply the theorems below at concrete inputs, the runtime parameters are instantiated
  by a finite table of documents with their JSON texts (\<open>JSON_stringify\<close> looks a document
  up, \<open>JSON_parse\<close> looks a text up) and by a codec that prefixes a marker character.
\<close>

definition sample_runtime :: "(jsval \<times> string) list \<Rightarrow> runtime" where
  "sample_runtime table =
     \<lparr>JSON_stringify = (\<lambda>v n. case map_of table v of None \<Rightarrow> [] | Some s \<Rightarrow> s),
      JSON_parse = (\<lambda>s. map_of (map (\<lambda>(v, t). (t, v)) table) s),
      compressToUTF16 = (\<lambda>s. CHR ''z'' # s),
      decompressFromUTF16 =
        (\<lambda>s. case s of [] \<Rightarrow> None | c # t \<Rightarrow> if c = CHR ''z'' then Some t else None)\<rparr>"

definition null_runtime :: runtime where
  "null_runtime = sample_runtime [(JNull, ''null'')]"

definition dq :: "string \<Rightarrow> string" where
  "dq s = CHR 0x22 # s @ [CHR 0x22]"

definition sample_template :: "string \<Rightarrow> string \<Rightarrow> jsval" where
  "sample_template i n = JObj [(''id'', JStr i), (''name'', JStr n)]"

definition sample_state :: app_state where
  "sample_state =
     \<lparr>templates = [sample_template ''tpl-001'' ''Leave request'',
                   sample_template ''tpl-002'' ''Contract'',
                   sample_template ''tpl-001'' ''Leave request (copy)''],
      version = JStr ''1.0.0'',
      cloudConfig = \<lparr>endpoint = ''https://example.org/bin'', apiKey = ''secret''\<rparr>,
      isSyncing = False,
      lastSyncTime = [],
      localStorage = Map.empty,
      saveTimer = False\<rparr>"

text \<open>A remote store that answers every request with status 200 and the given body.\<close>

definition respond :: "jsval \<Rightarrow> network" where
  "respond body req =
     Some \<lparr>res_ok = True, res_status = 200, res_statusText = ''OK'', res_json = Some body\<rparr>"

text \<open>A remote store that answers every request with status 503.\<close>

definition failing_store :: network where
  "failing_store req =
     Some \<lparr>res_ok = False, res_status = 503, res_statusText = ''Service Unavailable'',
           res_json = None\<rparr>"


definition newer_data :: jsval where
  "newer_data = JObj [(''version'', JStr ''2.4.7''),
                      (''templates'', JArr [sample_template ''tpl-009'' ''Power of attorney'']),
                      (''lastUpdated'', JNum 1700000000000)]"

definition templates_only :: jsval where
  "templates_only = JObj [(''templates'', JArr [])]"

definition empty_version_data :: jsval where
  "empty_version_data = JObj [(''templates'', JArr []), (''version'', JStr [])]"


text \<open>
  The backup of one template at revision \<^verbatim>\<open>1.0.0\<close> and the backup of no template at the
  empty revision, with their texts as \<^verbatim>\<open>JSON.stringify(data, null, 2)\<close> prints them.
\<close>

definition text_lines :: "string list \<Rightarrow> string" where
  "text_lines ls = concat (map (\<lambda>l. l @ [CHR 0x0A]) (butlast ls)) @ last ls"

definition backup_runtime :: runtime where
  "backup_runtime =
     sample_runtime
       [(export_document [sample_template ''tpl-001'' ''Leave request''] ''1.0.0'' 0,
         text_lines
           [''{'',
            ''  '' @ dq ''version'' @ '': '' @ dq ''1.0.0'' @ '','',
            ''  '' @ dq ''templates'' @ '': ['',
            ''    {'',
            ''      '' @ dq ''id'' @ '': '' @ dq ''tpl-001'' @ '','',
            ''      '' @ dq ''name'' @ '': '' @ dq ''Leave request'',
            ''    }'',
            ''  ],'',
            ''  '' @ dq ''exportedAt'' @ '': 0'',
            ''}'']),
        (export_document [] [] 0,
         text_lines
           [''{'',
            ''  '' @ dq ''version'' @ '': '' @ dq [] @ '','',
            ''  '' @ dq ''templates'' @ '': [],'',
            ''  '' @ dq ''exportedAt'' @ '': 0'',
            ''}''])]"

section \<open>Numbers: rounding, parsing and printing of integers\<close>

lemma digit_count_pos: "2 \<le> b \<Longrightarrow> 0 < n \<Longrightarrow> digit_count b n = Suc (digit_count b (n div b))"
  by (subst digit_count.simps) simp

lemma digit_count_nonpos: "n \<le> 0 \<Longrightarrow> digit_count b n = 0"
  by (subst digit_count.simps) simp

lemma div_lower: "0 < (b::int) \<Longrightarrow> b * (n div b) \<le> n"
  using mult_div_mod_eq [of b n] pos_mod_sign [of b n] by linarith

lemma div_upper: "0 < (b::int) \<Longrightarrow> n < b * (n div b + 1)"
proof -
  assume "0 < b"
  then have "n mod b < b" by simp
  moreover have "b * (n div b) + n mod b = n" by simp
  moreover have "b * (n div b + 1) = b * (n div b) + b" by (simp add: algebra_simps)
  ultimately show ?thesis by linarith
qed

lemma digit_count_bounds:
  "2 \<le> b \<Longrightarrow> 0 < n \<Longrightarrow> b ^ (digit_count b n - 1) \<le> n \<and> n < b ^ digit_count b n"
proof (induction b n rule: digit_count.induct)
  case (1 b n)
  have bpos: "0 < b" using 1(2) by simp
  show ?case
  proof (cases "n div b \<le> 0")
    case True
    have "b * (n div b) \<le> 0" using True bpos by (simp add: mult_nonneg_nonpos)
    with div_upper [OF bpos, of n] have "n < b" by (simp add: algebra_simps)
    moreover have "digit_count b n = Suc 0"
      using 1(2,3) True by (subst digit_count_pos) (simp_all add: digit_count_nonpos)
    ultimately show ?thesis using 1(3) by simp
  next
    case False
    then have pos: "0 < n div b" by simp
    with 1 have ih: "b ^ (digit_count b (n div b) - 1) \<le> n div b" "n div b < b ^ digit_count b (n div b)"
      by auto
    have dc: "digit_count b (n div b) = Suc (digit_count b (n div b) - 1)"
      using digit_count_pos [OF 1(2) pos] by simp
    have "b * b ^ (digit_count b (n div b) - 1) \<le> b * (n div b)"
      using ih(1) bpos by (simp add: mult_left_mono)
    also have "\<dots> \<le> n" by (rule div_lower [OF bpos])
    finally have lo: "b ^ digit_count b (n div b) \<le> n"
      by (subst dc) simp
    have "n div b + 1 \<le> b ^ digit_count b (n div b)" using ih(2) by simp
    then have "b * (n div b + 1) \<le> b * b ^ digit_count b (n div b)"
      using bpos by (simp add: mult_left_mono)
    with div_upper [OF bpos, of n] have hi: "n < b ^ Suc (digit_count b (n div b))" by simp
    have "digit_count b n = Suc (digit_count b (n div b))"
      using 1(2,3) by (rule digit_count_pos)
    with lo hi show ?thesis by simp
  qed
qed

lemma floor_log_of_int:
  assumes "2 \<le> b" "0 < n"
  shows "floor_log b (of_int n) = int (digit_count b n) - 1"
proof -
  have dc: "0 < digit_count b n" using digit_count_pos [OF assms] by simp
  have d1: "digit_count b 1 = 1" using assms(1) by (subst digit_count_pos) (simp_all add: digit_count_nonpos)
  have "(of_int b :: rat) ^ (digit_count b n - 1) \<le> of_int n"
    using digit_count_bounds [OF assms] by (metis of_int_le_iff of_int_power)
  then have "power_int (of_int b :: rat) (int (digit_count b n) - 1) \<le> of_int n"
    using dc by (simp add: power_int_def nat_diff_distrib' )
  then show ?thesis
    by (simp add: floor_log_def d1)
qed

lemma round_half_even_of_int [simp]: "round_half_even (of_int m) = m"
  by (simp add: round_half_even_def)

lemma fl_exact:
  assumes "q \<noteq> 0" and "floor_log 2 \<bar>q\<bar> = e" and "- 1022 \<le> e"
    and "\<bar>q\<bar> / power_int 2 (e - 52) = of_int m" and "\<bar>q\<bar> < 2 ^ 1024"
  shows "fl q = Fin q"
proof -
  have u: "power_int (2::rat) (e - 52) \<noteq> 0" by simp
  have "of_int m * power_int (2::rat) (e - 52) = (\<bar>q\<bar> / power_int 2 (e - 52)) * power_int 2 (e - 52)"
    by (simp only: assms(4))
  also have "\<dots> = \<bar>q\<bar>" using u by simp
  finally have "of_int m * power_int (2::rat) (e - 52) = \<bar>q\<bar>" .
  then have r: "of_int (round_half_even (\<bar>q\<bar> / power_int 2 (e - 52))) * power_int (2::rat) (e - 52) = \<bar>q\<bar>"
    by (simp add: assms(4))
  have e: "max (floor_log 2 \<bar>q\<bar>) (- 1022) = e" using assms(2,3) by simp
  have big: "\<not> 2 ^ 1024 \<le> \<bar>q\<bar>" using assms(5) by (simp only: not_le)
  have "(if q < 0 then - \<bar>q\<bar> else \<bar>q\<bar>) = q" by simp
  then show ?thesis
    unfolding fl_def Let_def e r using assms(1) big by (simp only: if_False)
qed

lemma fl_of_int:
  assumes "\<bar>n\<bar> \<le> 2 ^ 53"
  shows "fl (of_int n) = Fin (of_int n)"
proof (cases "n = 0")
  case True
  then show ?thesis by (simp add: fl_def)
next
  case False
  define a where "a = \<bar>n\<bar>"
  have apos: "0 < a" and ale: "a \<le> 2 ^ 53" using False assms by (simp_all add: a_def)
  define e where "e = int (digit_count 2 a) - 1"
  have fle: "floor_log 2 \<bar>of_int n :: rat\<bar> = e"
    using floor_log_of_int [of 2 a] apos by (simp add: e_def a_def)
  have b: "2 ^ (digit_count 2 a - 1) \<le> a" "a < 2 ^ digit_count 2 a"
    using digit_count_bounds [of 2 a] apos by simp_all
  have dcpos: "0 < digit_count 2 a" using digit_count_pos [of 2 a] apos by simp
  have "(2::int) ^ (digit_count 2 a - 1) \<le> 2 ^ 53" using b(1) ale by (rule order_trans)
  then have dcle: "digit_count 2 a - 1 \<le> 53" by (rule power_le_imp_le_exp [rotated]) simp
  have e0: "0 \<le> e" "e \<le> 53" using dcpos dcle by (simp_all add: e_def)
  have "\<exists>m. \<bar>of_int n :: rat\<bar> / power_int 2 (e - 52) = of_int m"
  proof (cases "e \<le> 52")
    case True
    then have "e - 52 = - int (nat (52 - e))" by simp
    then have "power_int (2::rat) (e - 52) = inverse (2 ^ nat (52 - e))"
      by (simp only: power_int_minus power_int_of_nat)
    then have "\<bar>of_int n :: rat\<bar> / power_int 2 (e - 52) = of_int (a * 2 ^ nat (52 - e))"
      by (simp add: a_def divide_inverse)
    then show ?thesis by blast
  next
    case False
    with e0 have e53: "e = 53" by simp
    then have "digit_count 2 a - 1 = 53" using dcpos by (simp add: e_def)
    with b(1) ale have "a = 2 ^ 53" by simp
    then have "\<bar>of_int n :: rat\<bar> / power_int 2 (e - 52) = of_int (2 ^ 52)"
      using e53 by (simp add: a_def)
    then show ?thesis by blast
  qed
  then obtain m where m: "\<bar>of_int n :: rat\<bar> / power_int 2 (e - 52) = of_int m" by blast
  have "\<bar>of_int n :: rat\<bar> \<le> 2 ^ 53" using ale by (simp add: a_def)
  also have "\<dots> < (2::rat) ^ 1024" by simp
  finally have small: "\<bar>of_int n :: rat\<bar> < 2 ^ 1024" .
  show ?thesis
    using False e0 by (auto intro!: fl_exact [OF _ fle _ m small])
qed




lemma decimal_small: "n < 10 \<Longrightarrow> decimal n = [digit_char n]"
  by (subst decimal.simps) simp
















lemma digit_count_unique:
  assumes "2 \<le> b" "0 < n" "b ^ k \<le> n" "n < b ^ Suc k"
  shows "digit_count b n = Suc k"
proof -
  have b: "b ^ (digit_count b n - 1) \<le> n" "n < b ^ digit_count b n"
    using digit_count_bounds [OF assms(1,2)] by simp_all
  have b1: "1 < b" using assms(1) by simp
  have "b ^ k < b ^ digit_count b n" using assms(3) b(2) by linarith
  then have "k < digit_count b n" using b1 by (simp add: power_strict_increasing_iff)
  moreover have "b ^ (digit_count b n - 1) < b ^ Suc k" using assms(4) b(1) by linarith
  then have "digit_count b n - 1 < Suc k" using b1 by (simp only: power_strict_increasing_iff)
  ultimately show ?thesis by linarith
qed

lemma round_half_even_ge_floor: "\<lfloor>q\<rfloor> \<le> round_half_even q"
  by (simp add: round_half_even_def Let_def)

lemma round_half_even_le: "of_int (round_half_even q) \<le> q + 1"
proof -
  have f: "of_int \<lfloor>q\<rfloor> \<le> q" by simp
  have "round_half_even q = \<lfloor>q\<rfloor> \<or> round_half_even q = \<lfloor>q\<rfloor> + 1"
    by (simp add: round_half_even_def Let_def)
  then show ?thesis
  proof
    assume "round_half_even q = \<lfloor>q\<rfloor>"
    with f show ?thesis by linarith
  next
    assume "round_half_even q = \<lfloor>q\<rfloor> + 1"
    with f show ?thesis by simp
  qed
qed

lemma fl_int_53:
  assumes "2 ^ 53 \<le> y" "y < 2 ^ 54"
  shows "fl (of_int y) = Fin (2 * of_int (round_half_even (of_int y / 2)))"
proof -
  have ypos: "0 < y" using assms(1) by (rule less_le_trans [rotated]) simp
  have dc: "digit_count 2 y = Suc 53"
    by (rule digit_count_unique) (use assms ypos in simp_all)
  have fle: "floor_log 2 \<bar>of_int y :: rat\<bar> = 53"
    using floor_log_of_int [of 2 y] ypos dc by simp
  have e: "max (floor_log 2 \<bar>of_int y :: rat\<bar>) (- 1022) = 53"
    by (simp add: fle)
  have u: "power_int (2::rat) (53 - 52) = 2" by simp
  have "(of_int y :: rat) < of_int (2 ^ 54)" using assms(2) by (simp only: of_int_less_iff)
  then have "(of_int y :: rat) / 2 + 1 < 2 ^ 54" by simp
  with round_half_even_le [of "of_int y / 2"]
  have small: "of_int (round_half_even (of_int y / 2)) < (2::rat) ^ 54" by linarith
  have "(2::rat) ^ 54 * 2 \<le> 2 ^ 1024" by simp
  with small have big: "\<not> 2 ^ 1024 \<le> of_int (round_half_even (\<bar>of_int y\<bar> / 2)) * (2::rat)"
    using ypos by simp
  have nz: "(of_int y :: rat) \<noteq> 0" "\<not> (of_int y :: rat) < 0" using ypos by simp_all
  show ?thesis
    unfolding fl_def Let_def e u using nz big ypos
    by (simp only: if_False) (simp add: mult.commute)
qed

lemma fl_rejects:
  assumes "N \<le> 2 ^ 53" "N < y" "y < 2 ^ 54" "10 dvd y" "0 \<le> N"
  shows "fl (of_int y) \<noteq> Fin (of_int N)"
proof (cases "y \<le> 2 ^ 53")
  case True
  with assms(2,5) have "\<bar>y\<bar> \<le> 2 ^ 53" by simp
  then have "fl (of_int y) = Fin (of_int y)" by (rule fl_of_int)
  with assms(2) show ?thesis by simp
next
  case False
  have "y \<noteq> 2 ^ 53 + 1"
  proof
    assume "y = 2 ^ 53 + 1"
    with assms(4) have "(10::int) dvd 2 ^ 53 + 1" by simp
    then show False by simp
  qed
  with False have y: "2 ^ 53 + 2 \<le> y" by simp
  then have "2 ^ 53 \<le> y" by simp
  then have f: "fl (of_int y) = Fin (2 * of_int (round_half_even (of_int y / 2)))"
    using assms(3) by (rule fl_int_53)
  have "(2::int) ^ 52 + 1 \<le> y div 2" using y by simp
  also have "y div 2 = \<lfloor>(of_int y :: rat) / 2\<rfloor>"
    using floor_divide_of_int_eq [of y 2, where ?'a = rat] by simp
  also have "\<dots> \<le> round_half_even (of_int y / 2)" by (rule round_half_even_ge_floor)
  finally have "2 ^ 53 + 2 \<le> 2 * round_half_even (of_int y / 2)" by simp
  with assms(1) have "N < 2 * round_half_even (of_int y / 2)" by linarith
  then have "(of_int N :: rat) < of_int (2 * round_half_even (of_int y / 2))"
    by (simp only: of_int_less_iff)
  then show ?thesis by (simp add: f)
qed

lemma dec_exp_of_int: "0 < N \<Longrightarrow> dec_exp (of_int N) = int (digit_count 10 N)"
  using floor_log_of_int [of 10 N] by (simp add: dec_exp_def)

lemma candidates_of_int:
  assumes "0 < N" "k \<le> digit_count 10 N"
  shows "candidates (of_int N) k =
           [(N div 10 ^ (digit_count 10 N - k), int (digit_count 10 N)),
            if N div 10 ^ (digit_count 10 N - k) + 1 = 10 ^ k
            then (10 ^ (k - 1), int (digit_count 10 N) + 1)
            else (N div 10 ^ (digit_count 10 N - k) + 1, int (digit_count 10 N))]"
proof -
  have "int (digit_count 10 N) - int k = int (digit_count 10 N - k)"
    using assms(2) by simp
  then have p: "power_int (10::rat) (int (digit_count 10 N) - int k) = of_int (10 ^ (digit_count 10 N - k))"
    by (simp only: power_int_of_nat) simp
  have "\<lfloor>(of_int N :: rat) / of_int (10 ^ (digit_count 10 N - k))\<rfloor> = N div 10 ^ (digit_count 10 N - k)"
    by (rule floor_divide_of_int_eq)
  then show ?thesis
    using assms(1) by (simp add: candidates_def dec_exp_of_int p Let_def)
qed

lemma cval_same:
  assumes "k \<le> D"
  shows "cval k (s, int D) = of_int (s * 10 ^ (D - k))"
proof -
  have "int D - int k = int (D - k)" using assms by simp
  then have "power_int (10::rat) (int D - int k) = of_int (10 ^ (D - k))"
    by (simp only: power_int_of_nat) simp
  then show ?thesis by (simp add: cval_def)
qed

lemma cval_carry:
  assumes "1 \<le> k" "k \<le> D"
  shows "cval k (10 ^ (k - 1), int D + 1) = of_int (10 ^ k * 10 ^ (D - k))"
proof -
  have "int D + 1 - int k = int (D + 1 - k)" using assms by simp
  then have "power_int (10::rat) (int D + 1 - int k) = 10 ^ (D + 1 - k)"
    by (simp only: power_int_of_nat)
  then have "cval k (10 ^ (k - 1), int D + 1) = 10 ^ (k - 1) * 10 ^ (D + 1 - k)"
    by (simp add: cval_def)
  also have "\<dots> = 10 ^ ((k - 1) + (D + 1 - k))" by (simp only: power_add)
  also have "(k - 1) + (D + 1 - k) = k + (D - k)" using assms by simp
  finally show ?thesis by (simp add: power_add)
qed

lemma digit_count_le_16:
  assumes "0 < N" "N \<le> 2 ^ 53"
  shows "digit_count 10 N \<le> 16"
proof -
  have "(10::int) ^ (digit_count 10 N - 1) \<le> N"
    using digit_count_bounds [of 10 N] assms(1) by simp
  also have "N < 10 ^ 16" using assms(2) by simp
  finally have "digit_count 10 N - 1 < 16"
    by (simp only: power_strict_increasing_iff)
  then show ?thesis by simp
qed

lemma candidate_values:
  assumes "0 < N" "1 \<le> k" "k \<le> digit_count 10 N"
  defines "w \<equiv> 10 ^ (digit_count 10 N - k)"
  shows "\<exists>c2. candidates (of_int N) k = [(N div w, int (digit_count 10 N)), c2]
              \<and> cval k (N div w, int (digit_count 10 N)) = of_int (N div w * w)
              \<and> cval k c2 = of_int ((N div w + 1) * w)"
proof (cases "N div w + 1 = 10 ^ k")
  case True
  then have "candidates (of_int N) k =
      [(N div w, int (digit_count 10 N)), (10 ^ (k - 1), int (digit_count 10 N) + 1)]"
    using candidates_of_int [OF assms(1,3)] by (simp add: w_def)
  moreover have "cval k (10 ^ (k - 1), int (digit_count 10 N) + 1) = of_int ((N div w + 1) * w)"
    using cval_carry [OF assms(2,3)] True by (simp add: w_def)
  ultimately show ?thesis using cval_same [OF assms(3)] by (simp add: w_def)
next
  case False
  then have "candidates (of_int N) k =
      [(N div w, int (digit_count 10 N)), (N div w + 1, int (digit_count 10 N))]"
    using candidates_of_int [OF assms(1,3)] by (simp add: w_def)
  then show ?thesis using cval_same [OF assms(3)] by (simp add: w_def)
qed

lemma shortest_found:
  assumes "0 < N" "N \<le> 2 ^ 53" "1 \<le> k" "k \<le> digit_count 10 N"
    and "10 ^ (digit_count 10 N - k) dvd N"
  shows "shortest (of_int N) k = ((N div 10 ^ (digit_count 10 N - k), int (digit_count 10 N)), k)"
proof -
  define w :: int where "w = 10 ^ (digit_count 10 N - k)"
  define c1 where "c1 = (N div w, int (digit_count 10 N))"
  obtain c2 where c: "candidates (of_int N) k = [c1, c2]"
      "cval k c1 = of_int (N div w * w)" "cval k c2 = of_int ((N div w + 1) * w)"
    using candidate_values [OF assms(1,3,4)] unfolding w_def c1_def by blast
  have wpos: "0 < w" by (simp add: w_def)
  have exact: "N div w * w = N" using assms(5) by (simp add: w_def)
  have p1: "fl (cval k c1) = Fin (of_int N)"
    using fl_of_int [of N] assms(1,2) by (simp add: c(2) exact)
  have "\<bar>cval k c1 - of_int N\<bar> = 0" by (simp add: c(2) exact)
  moreover have "(N div w + 1) * w = N + w" using exact by (simp add: algebra_simps)
  then have "cval k c2 - of_int N = of_int w"
    by (simp add: c(3))
  then have "0 < \<bar>cval k c2 - of_int N\<bar>" using wpos by simp
  ultimately have cl: "closest (of_int N) k c1 c2 = c1"
    by (simp add: closest_def Let_def)
  have "filter (\<lambda>c. fl (cval k c) = Fin (of_int N)) (candidates (of_int N) k) = [c1]
        \<or> filter (\<lambda>c. fl (cval k c) = Fin (of_int N)) (candidates (of_int N) k) = [c1, c2]"
    using p1 by (simp add: c(1))
  then have "shortest (of_int N) k = (c1, k)"
    by (subst shortest.simps) (auto simp: cl)
  then show ?thesis by (simp add: c1_def w_def)
qed

lemma shortest_continue:
  assumes "0 < N" "N \<le> 2 ^ 53" "1 \<le> k" "k \<le> digit_count 10 N"
    and "\<not> 10 ^ (digit_count 10 N - k) dvd N"
  shows "shortest (of_int N) k = shortest (of_int N) (Suc k)"
proof -
  define D where "D = digit_count 10 N"
  define w :: int where "w = 10 ^ (D - k)"
  define c1 where "c1 = (N div w, int D)"
  obtain c2 where c: "candidates (of_int N) k = [c1, c2]"
      "cval k c1 = of_int (N div w * w)" "cval k c2 = of_int ((N div w + 1) * w)"
    using candidate_values [OF assms(1,3,4)] unfolding w_def c1_def D_def by blast
  have wpos: "0 < w" by (simp add: w_def)
  have D16: "D \<le> 16" unfolding D_def using assms(1,2) by (rule digit_count_le_16)
  have "D - k \<noteq> 0" using assms(5) by (auto simp: D_def intro: ccontr)
  then have kD: "k < D" by simp
  then obtain j where j: "D - k = Suc j" by (cases "D - k") simp_all
  have w10: "10 dvd w" by (simp add: w_def j)
  have lo: "N div w * w \<le> N" using div_lower [OF wpos, of N] by (simp add: mult.commute)
  have ne: "N div w * w \<noteq> N"
  proof
    assume "N div w * w = N"
    then have "w dvd N" by (metis dvd_triv_right)
    with assms(5) show False by (simp add: w_def D_def)
  qed
  have nonneg: "0 \<le> N div w * w" using assms(1) wpos by (simp add: pos_imp_zdiv_nonneg_iff)
  have "\<bar>N div w * w\<bar> \<le> 2 ^ 53" using lo nonneg assms(2) by simp
  then have "fl (of_int (N div w * w)) = Fin (of_int (N div w * w))" by (rule fl_of_int)
  moreover have "(of_int (N div w * w) :: rat) \<noteq> of_int N"
    using ne by (simp only: of_int_eq_iff not_False_eq_True)
  ultimately have r1: "fl (cval k c1) \<noteq> Fin (of_int N)"
    by (simp only: c(2) jsnum.inject not_False_eq_True)
  have hi: "N < (N div w + 1) * w" using div_upper [OF wpos, of N] by (simp add: mult.commute)
  have "D - k \<le> 15" using D16 assms(3) by simp
  then have "w \<le> 10 ^ 15" unfolding w_def by (intro power_increasing) simp_all
  moreover have "(N div w + 1) * w = N div w * w + w" by (simp add: algebra_simps)
  ultimately have "(N div w + 1) * w \<le> 2 ^ 53 + 10 ^ 15" using lo assms(2) by linarith
  then have small: "(N div w + 1) * w < 2 ^ 54" by simp
  have "10 dvd (N div w + 1) * w" using w10 by simp
  then have r2: "fl (cval k c2) \<noteq> Fin (of_int N)"
    using fl_rejects [OF assms(2) hi small] assms(1) by (simp add: c(3))
  have "filter (\<lambda>c. fl (cval k c) = Fin (of_int N)) (candidates (of_int N) k) = []"
    using r1 r2 by (simp add: c(1))
  moreover have "\<not> 17 \<le> k" using kD D16 by simp
  ultimately show ?thesis by (subst shortest.simps) simp
qed

lemma shortest_int:
  assumes "0 < N" "N \<le> 2 ^ 53" "1 \<le> k" "k \<le> digit_count 10 N"
  shows "\<exists>j. j \<le> digit_count 10 N - k \<and> 10 ^ j dvd N
             \<and> shortest (of_int N) k = ((N div 10 ^ j, int (digit_count 10 N)), digit_count 10 N - j)"
  using assms(3,4)
proof (induction "digit_count 10 N - k" arbitrary: k)
  case 0
  then have k: "k = digit_count 10 N" by simp
  have "shortest (of_int N) k = ((N div 10 ^ (digit_count 10 N - k), int (digit_count 10 N)), k)"
    by (rule shortest_found [OF assms(1,2) 0(2,3)]) (simp add: k)
  then show ?case by (intro exI [of _ 0]) (simp add: k)
next
  case (Suc d)
  show ?case
  proof (cases "10 ^ (digit_count 10 N - k) dvd N")
    case True
    have "shortest (of_int N) k = ((N div 10 ^ (digit_count 10 N - k), int (digit_count 10 N)), k)"
      by (rule shortest_found [OF assms(1,2) Suc(3,4) True])
    with True Suc(4) show ?thesis
      by (intro exI [of _ "digit_count 10 N - k"]) simp
  next
    case False
    have s: "shortest (of_int N) k = shortest (of_int N) (Suc k)"
      by (rule shortest_continue [OF assms(1,2) Suc(3,4) False])
    have "d = digit_count 10 N - Suc k" "1 \<le> Suc k" "Suc k \<le> digit_count 10 N"
      using Suc(2) by simp_all
    from Suc(1) [OF this] obtain j where "j \<le> digit_count 10 N - Suc k" "10 ^ j dvd N"
      "shortest (of_int N) (Suc k) = ((N div 10 ^ j, int (digit_count 10 N)), digit_count 10 N - j)"
      by blast
    then show ?thesis by (intro exI [of _ j]) (simp add: s)
  qed
qed

lemma digit_char_simps:
  "digit_char 0 = CHR ''0''" "digit_char 1 = CHR ''1''" "digit_char 2 = CHR ''2''"
  "digit_char 3 = CHR ''3''" "digit_char 4 = CHR ''4''" "digit_char 5 = CHR ''5''"
  "digit_char 6 = CHR ''6''" "digit_char 7 = CHR ''7''" "digit_char 8 = CHR ''8''"
  "digit_char 9 = CHR ''9''"
  by (simp_all add: digit_char_def char_of_def)

lemmas digit_char_0 = digit_char_simps(1)

lemma decimal_times_10: "0 < s \<Longrightarrow> decimal (s * 10) = decimal s @ ''0''"
  by (subst decimal.simps) (simp add: digit_char_0)

lemma decimal_pow10: "0 < s \<Longrightarrow> decimal (s * 10 ^ j) = decimal s @ replicate j (CHR ''0'')"
proof (induction j)
  case 0
  then show ?case by simp
next
  case (Suc j)
  have "0 < s * 10 ^ j" using Suc(2) by simp
  then have "decimal (s * 10 ^ j * 10) = decimal (s * 10 ^ j) @ ''0''" by (rule decimal_times_10)
  moreover have "s * 10 ^ Suc j = s * 10 ^ j * 10" by simp
  ultimately show ?case using Suc by (simp only: replicate_Suc append_assoc) (simp add: replicate_append_same)
qed

lemma NumberToString_int:
  assumes "0 \<le> N" "N \<le> 2 ^ 53"
  shows "NumberToString (Fin (of_int N)) = decimal N"
proof (cases "N = 0")
  case True
  then show ?thesis by (simp add: decimal_small digit_char_0)
next
  case False
  with assms(1) have pos: "0 < N" by simp
  define D where "D = digit_count 10 N"
  have D1: "1 \<le> D" using digit_count_pos [of 10 N] pos by (simp add: D_def)
  have D16: "D \<le> 16" unfolding D_def using pos assms(2) by (rule digit_count_le_16)
  obtain j where j: "j \<le> D - 1" "10 ^ j dvd N"
      "shortest (of_int N) 1 = ((N div 10 ^ j, int D), D - j)"
    using shortest_int [OF pos assms(2), of 1] D1 unfolding D_def by auto
  have spos: "0 < N div 10 ^ j"
    using j(2) pos by (metis dvd_div_eq_0_iff pos_imp_zdiv_nonneg_iff zero_less_numeral zero_less_power less_le)
  have "int (D - j) \<le> int D \<and> int D \<le> 21" using D16 by simp
  moreover have "nat (int D - int (D - j)) = j" using j(1) D1 by simp
  ultimately have "positive_to_string (of_int N) = decimal (N div 10 ^ j) @ replicate j (CHR ''0'')"
    using j(3) by (simp add: positive_to_string_def)
  also have "\<dots> = decimal (N div 10 ^ j * 10 ^ j)" using spos by (simp add: decimal_pow10)
  also have "N div 10 ^ j * 10 ^ j = N" using j(2) by simp
  finally show ?thesis using pos by simp
qed

lemma js_inc_int:
  assumes "0 \<le> n" "n < 2 ^ 53"
  shows "js_inc (Fin (of_int n)) = Fin (of_int (n + 1))"
proof -
  have "\<bar>n + 1\<bar> \<le> 2 ^ 53" using assms by simp
  then have "fl (of_int (n + 1)) = Fin (of_int (n + 1))" by (rule fl_of_int)
  then show ?thesis by simp
qed

lemma incrementVersion_accepted:
  assumes "map StringToNumber (split_on (CHR ''.'') v) = [major, minor, patch]"
    and "\<not> isNaN major" "\<not> isNaN minor" "\<not> isNaN patch"
  shows "incrementVersion v ls =
           (version_string (rollover major minor patch),
            ls(VERSION_KEY \<mapsto> version_string (rollover major minor patch)))"
  using assms by (simp add: incrementVersion_def Let_def)

lemma incrementVersion_rejected:
  assumes "length (split_on (CHR ''.'') v) \<noteq> 3
           \<or> (\<exists>p \<in> set (split_on (CHR ''.'') v). isNaN (StringToNumber p))"
  shows "incrementVersion v ls = (''1.0.1'', ls(VERSION_KEY \<mapsto> ''1.0.1''))"
  using assms by (auto simp: incrementVersion_def Let_def list_ex_iff split: list.splits)






section \<open>Versioning: the claims\<close>








lemma number_examples:
  "StringToNumber ''1e-1'' = Fin (3602879701896397 / 36028797018963968)"
  "StringToNumber ''-3'' = Fin (- 3)"
  "StringToNumber '''' = Fin 0"
  "StringToNumber ''0'' = Fin 0"
  "StringToNumber ''1'' = Fin 1"
  "StringToNumber ''2'' = Fin 2"
  "StringToNumber ''abc'' = NaN"
  "StringToNumber ''not-a-version'' = NaN"
  by code_simp+

lemma split_examples:
  "split_on (CHR ''.'') ''1..2'' = [''1'', '''', ''2'']"
  "split_on (CHR ''.'') ''1.-3.2'' = [''1'', ''-3'', ''2'']"
  "split_on (CHR ''.'') ''1e-1.0.0'' = [''1e-1'', ''0'', ''0'']"
  "split_on (CHR ''.'') ''abc'' = [''abc'']"
  "split_on (CHR ''.'') ''1.2'' = [''1'', ''2'']"
  "split_on (CHR ''.'') ''not-a-version'' = [''not-a-version'']"
  by simp_all

lemma tenth_to_string:
  "NumberToString (Fin (3602879701896397 / 36028797018963968)) = ''0.1''"
  by code_simp

lemma minus_three_to_string: "NumberToString (Fin (- 3)) = ''-3''"
proof -
  have "NumberToString (Fin (of_int 3)) = decimal 3" by (rule NumberToString_int) simp_all
  then have "positive_to_string 3 = ''3''" by (simp add: decimal.simps digit_char_simps)
  then show ?thesis by simp
qed

lemma small_to_string:
  "NumberToString (Fin 0) = ''0''" "NumberToString (Fin 1) = ''1''" "NumberToString (Fin 3) = ''3''"
  using NumberToString_int [of 0] NumberToString_int [of 1] NumberToString_int [of 3]
  by (simp_all add: decimal.simps digit_char_simps del: NumberToString.simps)

lemma small_increments:
  "js_inc (Fin 0) = Fin 1" "js_inc (Fin 2) = Fin 3"
  using js_inc_int [of 0] js_inc_int [of 2] by simp_all

text \<open>
  C9. The guard of \<^verbatim>\<open>incrementVersion\<close> lets through every string that splits at the dots
  into exactly three parts none of which \<^verbatim>\<open>Number\<close> coerces to \<open>NaN\<close>: such a string goes
  through the rollover arithmetic, and the printed result is returned and stored. This
  includes empty parts (coerced to 0), negative parts and numeric notations that are not
  integers.
\<close>

theorem coercible_parts_accepted:
  assumes "map StringToNumber (split_on (CHR ''.'') v) = [major, minor, patch]"
    and "\<not> isNaN major" and "\<not> isNaN minor" and "\<not> isNaN patch"
  shows "incrementVersion v ls =
           (version_string (rollover major minor patch),
            ls(VERSION_KEY \<mapsto> version_string (rollover major minor patch)))"
  using assms by (rule incrementVersion_accepted)

theorem coercible_parts_accepted_witness:
  "map StringToNumber (split_on (CHR ''.'') ''1..2'') = [Fin 1, Fin 0, Fin 2]
   \<and> incrementVersion ''1..2'' Map.empty = (''1.0.3'', [VERSION_KEY \<mapsto> ''1.0.3''])
   \<and> map StringToNumber (split_on (CHR ''.'') ''1.-3.2'') = [Fin 1, Fin (- 3), Fin 2]
   \<and> incrementVersion ''1.-3.2'' Map.empty = (''1.-3.3'', [VERSION_KEY \<mapsto> ''1.-3.3''])
   \<and> map StringToNumber (split_on (CHR ''.'') ''1e-1.0.0'')
       = [Fin (3602879701896397 / 36028797018963968), Fin 0, Fin 0]
   \<and> incrementVersion ''1e-1.0.0'' Map.empty = (''0.1.0.1'', [VERSION_KEY \<mapsto> ''0.1.0.1''])"
proof -
  have p1: "map StringToNumber (split_on (CHR ''.'') ''1..2'') = [Fin 1, Fin 0, Fin 2]"
    and p2: "map StringToNumber (split_on (CHR ''.'') ''1.-3.2'') = [Fin 1, Fin (- 3), Fin 2]"
    and p3: "map StringToNumber (split_on (CHR ''.'') ''1e-1.0.0'')
               = [Fin (3602879701896397 / 36028797018963968), Fin 0, Fin 0]"
    by (simp_all only: split_examples list.map number_examples)
  have r1: "version_string (rollover (Fin 1) (Fin 0) (Fin 2)) = ''1.0.3''"
    and r2: "version_string (rollover (Fin 1) (Fin (- 3)) (Fin 2)) = ''1.-3.3''"
    and r3: "version_string (rollover (Fin (3602879701896397 / 36028797018963968)) (Fin 0) (Fin 0))
               = ''0.1.0.1''"
    by (simp_all add: rollover_def version_string_def small_increments small_to_string
        minus_three_to_string tenth_to_string del: js_inc.simps NumberToString.simps)
  show ?thesis
    using coercible_parts_accepted [OF p1, of Map.empty] coercible_parts_accepted [OF p2, of Map.empty]
      coercible_parts_accepted [OF p3, of Map.empty]
    by (simp add: r1 r2 r3 number_examples)
qed

text \<open>
  C5, as amended. For every input string whose split at the dots does not have exactly
  three parts, or has a part that \<^verbatim>\<open>Number\<close> coerces to \<open>NaN\<close> (\<^verbatim>\<open>abc\<close>, \<^verbatim>\<open>1.2\<close>,
  \<^verbatim>\<open>not-a-version\<close>), \<^verbatim>\<open>incrementVersion\<close> discards the input, returns \<^verbatim>\<open>1.0.1\<close> and stores
  \<^verbatim>\<open>1.0.1\<close> in local storage under the version key.
\<close>

theorem malformed_resets:
  assumes "length (split_on (CHR ''.'') v) \<noteq> 3
           \<or> (\<exists>p \<in> set (split_on (CHR ''.'') v). isNaN (StringToNumber p))"
  shows "incrementVersion v ls = (''1.0.1'', ls(VERSION_KEY \<mapsto> ''1.0.1''))"
  using assms by (rule incrementVersion_rejected)

theorem malformed_resets_witness:
  "length (split_on (CHR ''.'') ''1.2'') = 2
   \<and> incrementVersion ''1.2'' Map.empty = (''1.0.1'', [VERSION_KEY \<mapsto> ''1.0.1''])
   \<and> isNaN (StringToNumber ''abc'')
   \<and> incrementVersion ''abc'' Map.empty = (''1.0.1'', [VERSION_KEY \<mapsto> ''1.0.1''])
   \<and> isNaN (StringToNumber ''not-a-version'')
   \<and> incrementVersion ''not-a-version'' Map.empty = (''1.0.1'', [VERSION_KEY \<mapsto> ''1.0.1''])"
  using malformed_resets [of "''1.2''" Map.empty] malformed_resets [of "''abc''" Map.empty]
    malformed_resets [of "''not-a-version''" Map.empty]
  by (simp add: split_examples number_examples)

text \<open>
  C5 as stated fails: \<^verbatim>\<open>1e-1.0.0\<close> does not parse as three integer components (its first
  part is the number 0.1), yet it is not reset to \<^verbatim>\<open>1.0.1\<close>: the guard only looks for
  \<open>NaN\<close>, and the string goes through the rollover arithmetic.
\<close>

theorem malformed_resets_counterexample:
  "\<not> three_integer_components ''1e-1.0.0''
   \<and> incrementVersion ''1e-1.0.0'' Map.empty = (''0.1.0.1'', [VERSION_KEY \<mapsto> ''0.1.0.1''])
   \<and> fst (incrementVersion ''1e-1.0.0'' Map.empty) \<noteq> ''1.0.1''"
proof -
  have p: "map StringToNumber (split_on (CHR ''.'') ''1e-1.0.0'')
             = [Fin (3602879701896397 / 36028797018963968), Fin 0, Fin 0]"
    by (simp only: split_examples list.map number_examples)
  have "\<lfloor>(3602879701896397 :: rat) / 36028797018963968\<rfloor> = 0"
    using floor_divide_of_int_eq [of 3602879701896397 36028797018963968, where ?'a = rat] by simp
  then have n: "\<not> three_integer_components ''1e-1.0.0''"
    by (simp only: three_integer_components_def p) (simp add: integer_component_def)
  have r: "version_string (rollover (Fin (3602879701896397 / 36028797018963968)) (Fin 0) (Fin 0))
             = ''0.1.0.1''"
    by (simp add: rollover_def version_string_def small_increments small_to_string
        tenth_to_string del: js_inc.simps NumberToString.simps)
  show ?thesis
    using n incrementVersion_accepted [OF p, of Map.empty] by (simp add: r)
qed

section \<open>Remote sync: the normalizer and the codec\<close>

lemma truthy_not_nullish: "truthy v \<Longrightarrow> \<not> nullish v"
  by (cases v) auto

lemma isString_string_of: "isString v \<Longrightarrow> v = JStr (string_of v)"
  by (cases v) auto



lemma decompress_compress:
  "reversible_at rt p \<Longrightarrow> decompress rt (compress rt p) = Inr p"
  by (simp add: reversible_at_def decompress_def compress_def)

text \<open>
  C3. The compression codec is a round trip: for every payload on which the JSON
  serialisation and the compression transform are reversible, decompressing the
  compression of the payload (\<^verbatim>\<open>decompressFromUTF16\<close> of \<^verbatim>\<open>compressToUTF16\<close> of the JSON
  text, then \<^verbatim>\<open>JSON.parse\<close>) succeeds and yields the payload.
\<close>

theorem codec_round_trip:
  assumes "reversible_at rt p"
  shows "decompress rt (compress rt p) = Inr p"
  using assms by (rule decompress_compress)

theorem codec_round_trip_witness:
  "reversible_at (sample_runtime [(templates_only, ''{'' @ dq ''templates'' @ '':[]}'')]) templates_only
   \<and> decompress (sample_runtime [(templates_only, ''{'' @ dq ''templates'' @ '':[]}'')])
        (compress (sample_runtime [(templates_only, ''{'' @ dq ''templates'' @ '':[]}'')])
           templates_only)
       = Inr templates_only"
proof -
  let ?rt = "sample_runtime [(templates_only, ''{'' @ dq ''templates'' @ '':[]}'')]"
  have h: "reversible_at ?rt templates_only"
    by (simp add: reversible_at_def sample_runtime_def dq_def)
  show ?thesis using h codec_round_trip [OF h] by simp
qed




section \<open>The sync cycle\<close>

lemma fetch_errors:
  "net \<lparr>req_verb = ''GET'', req_url = endpoint config, req_headers = auth_headers config,
        req_body = None\<rparr> = None \<Longrightarrow> fetchCloudData rt net config = Inl NetworkFailure"
  "net \<lparr>req_verb = ''GET'', req_url = endpoint config, req_headers = auth_headers config,
        req_body = None\<rparr> = Some res \<Longrightarrow> \<not> res_ok res \<Longrightarrow>
     fetchCloudData rt net config = Inl (SyncError (res_status res) (res_statusText res))"
  by (simp_all add: fetchCloudData_def)

text \<open>
  C8. A failing sync cycle, whether the fetch or the save raises (non-2xx status, network
  failure, body that is not JSON, decompression failure), leaves the state as it was but
  for the syncing flag, which is cleared: the template collection, the revision and
  everything else are untouched.
\<close>

theorem sync_failure_keeps_state:
  assumes "endpoint (cloudConfig st) \<noteq> []"
    and "if fetchOnly then fetchCloudData rt net (cloudConfig st) = Inl err
         else saveCloudData rt net nowISO (cloudConfig st)
                (JObj [(''version'', version st), (''templates'', JArr (templates st)),
                       (''lastUpdated'', JNum (of_int nowMs))]) = Inl err"
  shows "handleCloudSync rt net nowMs nowISO nowLocal fetchOnly st = st\<lparr>isSyncing := False\<rparr>"
  using assms by (cases fetchOnly) (simp_all add: handleCloudSync_def)

theorem sync_failure_keeps_state_witness:
  "endpoint (cloudConfig sample_state) \<noteq> []
   \<and> fetchCloudData null_runtime failing_store (cloudConfig sample_state)
       = Inl (SyncError 503 ''Service Unavailable'')
   \<and> handleCloudSync null_runtime failing_store 0 [] ''10:00:00'' True sample_state
       = sample_state\<lparr>isSyncing := False\<rparr>
   \<and> templates (handleCloudSync null_runtime failing_store 0 [] ''10:00:00'' True sample_state)
       = templates sample_state
   \<and> version (handleCloudSync null_runtime failing_store 0 [] ''10:00:00'' True sample_state)
       = JStr ''1.0.0''
   \<and> fetchCloudData null_runtime
        (respond (JObj [(''compressed'', JBool True), (''data'', JStr ''garbage'')]))
        (cloudConfig sample_state) = Inl DecompressionError
   \<and> handleCloudSync null_runtime
        (respond (JObj [(''compressed'', JBool True), (''data'', JStr ''garbage'')]))
        0 [] ''10:00:00'' True sample_state
       = sample_state\<lparr>isSyncing := False\<rparr>
   \<and> saveCloudData null_runtime failing_store [] (cloudConfig sample_state)
        (JObj [(''version'', version sample_state), (''templates'', JArr (templates sample_state)),
               (''lastUpdated'', JNum 0)])
       = Inl (SaveError 503 ''Service Unavailable'')
   \<and> handleCloudSync null_runtime failing_store 0 [] ''10:00:00'' False sample_state
       = sample_state\<lparr>isSyncing := False\<rparr>"
proof -
  let ?garbage = "respond (JObj [(''compressed'', JBool True), (''data'', JStr ''garbage'')])"
  have e: "endpoint (cloudConfig sample_state) \<noteq> []"
    by (simp add: sample_state_def)
  have f: "fetchCloudData null_runtime failing_store (cloudConfig sample_state)
             = Inl (SyncError 503 ''Service Unavailable'')"
    by (simp add: fetchCloudData_def failing_store_def)
  have g: "fetchCloudData null_runtime ?garbage (cloudConfig sample_state) = Inl DecompressionError"
    by (simp add: fetchCloudData_def respond_def parseResponse_def unwrap_record_def
        decompress_def null_runtime_def sample_runtime_def)
  have s: "saveCloudData null_runtime failing_store [] (cloudConfig sample_state)
        (JObj [(''version'', version sample_state), (''templates'', JArr (templates sample_state)),
               (''lastUpdated'', JNum 0)])
       = Inl (SaveError 503 ''Service Unavailable'')"
    by (simp add: saveCloudData_def failing_store_def Let_def)
  have 1: "handleCloudSync null_runtime failing_store 0 [] ''10:00:00'' True sample_state
          = sample_state\<lparr>isSyncing := False\<rparr>"
    by (rule sync_failure_keeps_state [OF e]) (simp add: f)
  have 2: "handleCloudSync null_runtime ?garbage 0 [] ''10:00:00'' True sample_state
          = sample_state\<lparr>isSyncing := False\<rparr>"
    by (rule sync_failure_keeps_state [OF e]) (simp add: g)
  have 3: "handleCloudSync null_runtime failing_store 0 [] ''10:00:00'' False sample_state
          = sample_state\<lparr>isSyncing := False\<rparr>"
    by (rule sync_failure_keeps_state [OF e, where nowISO = "[]"]) (simp add: s)
  have v: "templates (sample_state\<lparr>isSyncing := False\<rparr>) = templates sample_state"
    "version (sample_state\<lparr>isSyncing := False\<rparr>) = JStr ''1.0.0''"
    by (simp_all add: sample_state_def)
  show ?thesis
    by (simp only: e f g s 1 2 3 v simp_thms)
qed

text \<open>
  C1, as amended. A fetch-only sync that completes with a payload whose \<^verbatim>\<open>templates\<close>
  field is an array replaces the template collection by the fetched templates, with no
  merge or conflict detection; it replaces the revision by the fetched version when that
  version is truthy (present and not empty), and keeps the revision otherwise.
\<close>

theorem fetch_overwrites:
  assumes "endpoint (cloudConfig st) \<noteq> []"
    and "fetchCloudData rt net (cloudConfig st) = Inr fetched"
    and "truthy fetched" and "isArray (own_prop fetched ''templates'')"
  shows "handleCloudSync rt net nowMs nowISO nowLocal True st =
           st\<lparr>templates := elements (own_prop fetched ''templates''),
              version := (if truthy (own_prop fetched ''version'')
                          then own_prop fetched ''version'' else version st),
              lastSyncTime := nowLocal, isSyncing := False\<rparr>"
  using assms by (simp add: handleCloudSync_def apply_fetched_def)

theorem fetch_overwrites_witness:
  "endpoint (cloudConfig sample_state) \<noteq> []
   \<and> fetchCloudData null_runtime (respond newer_data) (cloudConfig sample_state) = Inr newer_data
   \<and> truthy newer_data \<and> isArray (own_prop newer_data ''templates'')
   \<and> templates (handleCloudSync null_runtime (respond newer_data) 0 [] ''10:00:00'' True sample_state)
       = [sample_template ''tpl-009'' ''Power of attorney'']
   \<and> version (handleCloudSync null_runtime (respond newer_data) 0 [] ''10:00:00'' True sample_state)
       = JStr ''2.4.7''"
proof -
  have e: "endpoint (cloudConfig sample_state) \<noteq> []"
    by (simp add: sample_state_def)
  have f: "fetchCloudData null_runtime (respond newer_data) (cloudConfig sample_state) = Inr newer_data"
    by (simp add: fetchCloudData_def respond_def parseResponse_def unwrap_record_def newer_data_def)
  have t: "truthy newer_data" "isArray (own_prop newer_data ''templates'')"
    by (simp_all add: newer_data_def)
  show ?thesis
    using e f t fetch_overwrites [OF e f t, of 0 "[]" "''10:00:00''"]
    by (simp add: newer_data_def)
qed

text \<open>
  C1 as stated fails: a payload with an array of templates and an empty version, or with
  no version at all, is well-formed in the claim's sense, and the fetch replaces the
  collection but leaves the revision at its old value.
\<close>

theorem fetch_overwrites_counterexample:
  "fetchCloudData null_runtime (respond empty_version_data) (cloudConfig sample_state)
     = Inr empty_version_data
   \<and> isArray (own_prop empty_version_data ''templates'')
   \<and> own_prop empty_version_data ''version'' = JStr []
   \<and> templates (handleCloudSync null_runtime (respond empty_version_data)
         0 [] ''10:00:00'' True sample_state) = []
   \<and> version (handleCloudSync null_runtime (respond empty_version_data)
         0 [] ''10:00:00'' True sample_state) = JStr ''1.0.0''
   \<and> fetchCloudData null_runtime (respond templates_only) (cloudConfig sample_state)
       = Inr templates_only
   \<and> isArray (own_prop templates_only ''templates'')
   \<and> version (handleCloudSync null_runtime (respond templates_only)
         0 [] ''10:00:00'' True sample_state) = JStr ''1.0.0''"
  by (simp add: handleCloudSync_def fetchCloudData_def respond_def parseResponse_def
      unwrap_record_def sample_state_def apply_fetched_def empty_version_data_def
      templates_only_def)

section \<open>Import and export: the claims\<close>

lemma validate_import_rejects:
  assumes "\<not> nullish imported"
    and "\<not> isArray (own_prop imported ''templates'') \<or> \<not> truthy (own_prop imported ''version'')"
  shows "validate_import imported = Inl InvalidFile"
  using assms by (auto simp: validate_import_def get_prop_def)


lemma validate_import_null: "validate_import JNull = Inl JsonReadError"
  by (simp add: validate_import_def get_prop_def)

lemma null_document_read_error:
  "JSON_parse rt txt = Some JNull \<Longrightarrow> parseImportData rt (Some txt) = Inl JsonReadError"
  by (simp add: parseImportData_def validate_import_null)

lemma failed_import_keeps_state:
  "parseImportData rt file = Inl err \<Longrightarrow>
     handleFileChange rt (Some file) confirmed st = (st, Some (RestoreFailed err))"
  by (simp add: handleFileChange_def)



text \<open>
  The import rejects a file whose \<^verbatim>\<open>version\<close> is the empty string: a revision is never
  empty, and the round trip below does not extend to the empty string.
\<close>

lemma import_rejects_empty_version:
  "JSON_parse backup_runtime (snd (exportData backup_runtime 0 [] []))
     = Some (export_document [] [] 0)
   \<and> parseImportData backup_runtime (Some (snd (exportData backup_runtime 0 [] [])))
       = Inl InvalidFile"
proof -
  have p: "JSON_parse backup_runtime (snd (exportData backup_runtime 0 [] []))
             = Some (export_document [] [] 0)"
    by (simp add: exportData_def backup_runtime_def sample_runtime_def export_document_def
        sample_template_def text_lines_def dq_def)
  have "validate_import (export_document [] [] 0) = Inl InvalidFile"
    by (rule validate_import_rejects) (simp_all add: export_document_def)
  with p show ?thesis by (simp add: parseImportData_def)
qed



text \<open>
  C7. An import file whose JSON content is \<^verbatim>\<open>null\<close> lacks a \<^verbatim>\<open>templates\<close> array and a
  \<^verbatim>\<open>version\<close>; the claim has the import fail with the "invalid or corrupted file" error.
  The validation reads \<^verbatim>\<open>data.templates\<close> without a guard, the read throws, and the
  \<^verbatim>\<open>catch\<close> reports the JSON read error instead. The state is left unchanged, as for every
  failed import.
\<close>

theorem import_of_null_document:
  "JSON_parse null_runtime ''null'' = Some JNull
   \<and> parseImportData null_runtime (Some ''null'') = Inl JsonReadError
   \<and> handleFileChange null_runtime (Some (Some ''null'')) True sample_state
       = (sample_state, Some (RestoreFailed JsonReadError))"
  by (simp add: validate_import_def get_prop_def parseImportData_def handleFileChange_def
      null_runtime_def sample_runtime_def)

section \<open>The coordinator's delete\<close>





end
